theory Spec2Isabelle
  imports Complex_Main "HOL-Library.AList"
begin

section \<open>The stock widget's stream-state core (frontend/app.js)\<close>

text \<open>
  The development embeds the feed handling of \<^verbatim>\<open>frontend/app.js\<close>: the global state
  (\<^verbatim>\<open>latestPrices\<close>, \<^verbatim>\<open>chart\<close>, \<^verbatim>\<open>chartSymbol\<close>, \<^verbatim>\<open>chartHistory\<close>, \<^verbatim>\<open>usingMockFeed\<close>), the row
  click handler of \<^verbatim>\<open>renderStocksTable\<close>, \<^verbatim>\<open>addRecentAlert\<close>, \<^verbatim>\<open>updateChart\<close>, the socket
  handlers of \<^verbatim>\<open>connectWebSocket\<close> and \<^verbatim>\<open>startMockFeed\<close> with its interval callback.

  Conventions of the embedding.
  \<^item> JavaScript numbers that hold prices are modelled as exact reals: rounding of the
    double-precision operations is not represented. The one operation of the code that
    leaves the finite numbers on finite arguments, the division by the previous price,
    is modelled with an explicit non-finite result.
  \<^item> An object used as a dictionary (\<^verbatim>\<open>latestPrices\<close>) is an association list in
    insertion order; \<^verbatim>\<open>obj[k] = v\<close> is \<open>AList.update\<close> and \<^verbatim>\<open>obj[k]\<close> is \<open>map_of\<close>, with
    \<open>None\<close> for \<^verbatim>\<open>undefined\<close>.
  \<^item> Mutation of the globals is explicit state passing. A handler that can throw returns
    the state as it is at the throw together with the error: mutations made before an
    uncaught exception stay in place in the page.
  \<^item> The effects on the outside are recorded in the state as logs: the calls of
    \<^verbatim>\<open>setWsStatus\<close>, the calls of \<^verbatim>\<open>addRecentAlert\<close> and the number of timers created
    with \<^verbatim>\<open>setInterval\<close>. \<^verbatim>\<open>renderStocksTable\<close> only reads the globals and writes the
    table, so its calls leave the modelled state as it is.
  \<^item> The clock (\<^verbatim>\<open>new Date().toISOString()\<close>) and the draws of \<^verbatim>\<open>Math.random()\<close> are
    inputs of the handlers that read them.
\<close>

subsection \<open>Configuration\<close>

definition TRACKED_SYMBOLS :: "string list" where
  "TRACKED_SYMBOLS = [''AAPL'', ''TSLA'', ''NVDA'', ''MSFT'']"

subsection \<open>Data\<close>

type_synonym instant = string

text \<open>The result of a division: a finite number, or one of Infinity, -Infinity and NaN.\<close>

datatype jsnum = Finite real | NonFinite

definition js_div :: "real \<Rightarrow> real \<Rightarrow> jsnum" where
  "js_div a b = (if b = 0 then NonFinite else Finite (a / b))"

fun js_times :: "jsnum \<Rightarrow> real \<Rightarrow> jsnum" where
  "js_times (Finite x) y = Finite (x * y)"
| "js_times NonFinite y = NonFinite"

record quote =
  symbol :: string
  price :: real
  change :: real
  percentChange :: jsnum
  ts :: instant

text \<open>An element of \<^verbatim>\<open>chartHistory\<close>: \<^verbatim>\<open>{ ts, price }\<close>.\<close>

record point =
  point_ts :: instant
  point_price :: real

text \<open>The arguments of one call \<^verbatim>\<open>addRecentAlert(symbol, direction, price)\<close>.\<close>

record alert =
  alert_symbol :: string
  alert_direction :: string
  alert_price :: real

text \<open>What \<^verbatim>\<open>updateChart\<close> writes into the Chart.js object: the time stamps that are
  formatted into \<^verbatim>\<open>chart.data.labels\<close>, and \<^verbatim>\<open>chart.data.datasets[0].data\<close>.\<close>

record chart_view =
  labels :: "instant list"
  dataset :: "real list"

datatype js_error = TypeError

record app_state =
  latestPrices :: "(string \<times> quote) list"
  chart :: "chart_view option"
  chartSymbol :: string
  chartHistory :: "point list"
  usingMockFeed :: bool
  statusCalls :: "(string \<times> string) list"
  alertCalls :: "alert list"
  intervals :: nat

text \<open>The globals as lines 41 to 45 initialise them, after \<^verbatim>\<open>initChart\<close> has either
  created the chart with empty labels and data or returned early, leaving \<^verbatim>\<open>null\<close>.\<close>

definition initial_state :: "bool \<Rightarrow> app_state" where
  "initial_state chart_created =
     \<lparr>latestPrices = [],
      chart = (if chart_created then Some \<lparr>labels = [], dataset = []\<rparr> else None),
      chartSymbol = ''AAPL'',
      chartHistory = [],
      usingMockFeed = False,
      statusCalls = [],
      alertCalls = [],
      intervals = 0\<rparr>"

subsection \<open>Status pill and recent alerts\<close>

definition setWsStatus :: "string \<Rightarrow> string \<Rightarrow> app_state \<Rightarrow> app_state" where
  "setWsStatus state text s = s\<lparr>statusCalls := statusCalls s @ [(state, text)]\<rparr>"

definition addRecentAlert :: "string \<Rightarrow> string \<Rightarrow> real \<Rightarrow> app_state \<Rightarrow> app_state" where
  "addRecentAlert smb direction p s =
     s\<lparr>alertCalls := alertCalls s @
          [\<lparr>alert_symbol = smb, alert_direction = direction, alert_price = p\<rparr>]\<rparr>"

subsection \<open>Chart history\<close>

text \<open>Lines 329 and 330: \<^verbatim>\<open>push\<close>, then one \<^verbatim>\<open>shift\<close> when the length exceeds 20.\<close>

definition push_point :: "point list \<Rightarrow> point \<Rightarrow> point list" where
  "push_point h p = (let h' = h @ [p] in if length h' > 20 then tl h' else h')"

definition updateChart :: "string \<Rightarrow> app_state \<Rightarrow> app_state" where
  "updateChart smb s =
     (case chart s of
        None \<Rightarrow> s
      | Some c \<Rightarrow>
          (case map_of (latestPrices s) smb of
             None \<Rightarrow> s
           | Some data \<Rightarrow>
               (let h = push_point (chartHistory s) \<lparr>point_ts = ts data, point_price = price data\<rparr>
                in s\<lparr>chartHistory := h,
                     chart := Some (c\<lparr>labels := map point_ts h, dataset := map point_price h\<rparr>)\<rparr>)))"

text \<open>The click handler that \<^verbatim>\<open>renderStocksTable\<close> attaches to the row of a symbol
  (lines 165 to 171).\<close>

definition row_click :: "string \<Rightarrow> app_state \<Rightarrow> app_state" where
  "row_click smb s = (let s1 = s\<lparr>chartSymbol := smb, chartHistory := []\<rparr>
                      in updateChart (chartSymbol s1) s1)"

subsection \<open>Live messages\<close>

text \<open>
  The text of a socket message, seen through the guards of the handler:
  \<^item> \<open>Not_json\<close>: \<^verbatim>\<open>JSON.parse\<close> throws;
  \<^item> \<open>Json_null\<close>: the text parses to \<^verbatim>\<open>null\<close>;
  \<^item> \<open>Json_value t d\<close>: the text parses to any other value; \<open>t\<close> is its \<^verbatim>\<open>type\<close>
    property when that is a string (\<open>None\<close> when the property is absent or not a string),
    \<open>d\<close> the entries of its \<^verbatim>\<open>data\<close> array, each with the fields of the wire format.
  A price update whose \<^verbatim>\<open>data\<close> is not an array of such entries is not represented.
\<close>

datatype message = Not_json | Json_null | Json_value "string option" "quote list"

text \<open>The body of the \<^verbatim>\<open>forEach\<close> callback, lines 362 to 371.\<close>

definition process_item :: "quote \<Rightarrow> app_state \<Rightarrow> app_state" where
  "process_item item s =
     (let prev = map_of (latestPrices s) (symbol item);
          s1 = s\<lparr>latestPrices := AList.update (symbol item) item (latestPrices s)\<rparr>
      in case prev of
           None \<Rightarrow> s1
         | Some pq \<Rightarrow>
             if \<bar>price item - price pq\<bar> \<ge> 1.5
             then addRecentAlert (symbol item)
                    (if price item > price pq then ''up'' else ''down'') (price item) s1
             else s1)"

definition on_message :: "message \<Rightarrow> app_state \<Rightarrow> app_state \<times> js_error option" where
  "on_message m s =
     (case m of
        Not_json \<Rightarrow> (s, None)
      | Json_null \<Rightarrow> (s, Some TypeError)
      | Json_value t d \<Rightarrow>
          if t \<noteq> Some ''price_update'' then (s, None)
          else (let s1 = foldl (\<lambda>st item. process_item item st) s d
                in (updateChart (chartSymbol s1) s1, None)))"

definition on_open :: "app_state \<Rightarrow> app_state" where
  "on_open s = setWsStatus ''connected'' ''LIVE DATA: CONNECTED'' (s\<lparr>usingMockFeed := False\<rparr>)"

subsection \<open>Mock feed\<close>

text \<open>The seeding loop of lines 400 to 408, from index \<open>idx\<close> on.\<close>

fun seed_from :: "instant \<Rightarrow> nat \<Rightarrow> string list \<Rightarrow> (string \<times> quote) list \<Rightarrow> (string \<times> quote) list" where
  "seed_from now idx [] lp = lp"
| "seed_from now idx (smb # smbs) lp =
     seed_from now (Suc idx) smbs
       (AList.update smb
          \<lparr>symbol = smb, price = 100 + real idx * 50, change = 0,
           percentChange = Finite 0, ts = now\<rparr> lp)"

definition startMockFeed :: "instant \<Rightarrow> app_state \<Rightarrow> app_state" where
  "startMockFeed now s =
     (let s1 = setWsStatus ''error'' ''LIVE DATA: DEMO'' (s\<lparr>usingMockFeed := True\<rparr>);
          s2 = (if latestPrices s1 = []
                then (let s' = s1\<lparr>latestPrices := seed_from now 0 TRACKED_SYMBOLS (latestPrices s1)\<rparr>
                      in updateChart (chartSymbol s') s')
                else s1)
      in s2\<lparr>intervals := Suc (intervals s2)\<rparr>)"

text \<open>The body of the callback of \<^verbatim>\<open>TRACKED_SYMBOLS.forEach\<close> in the interval callback
  (lines 417 to 433), with \<open>r\<close> the value of \<^verbatim>\<open>Math.random()\<close>. Reading \<^verbatim>\<open>prev.price\<close>
  of \<^verbatim>\<open>undefined\<close> throws.\<close>

definition mock_entry :: "instant \<Rightarrow> real \<Rightarrow> string \<Rightarrow> app_state \<Rightarrow> js_error + app_state" where
  "mock_entry now r smb s =
     (case map_of (latestPrices s) smb of
        None \<Rightarrow> Inl TypeError
      | Some prev \<Rightarrow>
          (let delta = (r - 0.5) * 4;
               newPrice = max 1 (price prev + delta);
               chg = newPrice - price prev;
               pct = js_times (js_div chg (price prev)) 100;
               s1 = s\<lparr>latestPrices :=
                      AList.update smb
                        \<lparr>symbol = smb, price = newPrice, change = chg,
                         percentChange = pct, ts = now\<rparr> (latestPrices s)\<rparr>
           in Inr (if \<bar>chg\<bar> \<ge> 1.5
                   then addRecentAlert smb (if chg > 0 then ''up'' else ''down'') newPrice s1
                   else s1)))"


text \<open>The \<^verbatim>\<open>forEach\<close> over the tracked symbols; \<open>rnd i\<close> is the draw of the \<open>i\<close>-th
  iteration. An exception ends the loop and leaves the state of that moment.\<close>

fun tick_symbols ::
  "instant \<Rightarrow> (nat \<Rightarrow> real) \<Rightarrow> nat \<Rightarrow> string list \<Rightarrow> app_state \<Rightarrow> app_state \<times> js_error option" where
  "tick_symbols now rnd i [] s = (s, None)"
| "tick_symbols now rnd i (smb # smbs) s =
     (case mock_entry now (rnd i) smb s of
        Inl e \<Rightarrow> (s, Some e)
      | Inr s' \<Rightarrow> tick_symbols now rnd (Suc i) smbs s')"

text \<open>The interval callback, lines 413 to 438.\<close>

definition mock_tick :: "instant \<Rightarrow> (nat \<Rightarrow> real) \<Rightarrow> app_state \<Rightarrow> app_state \<times> js_error option" where
  "mock_tick now rnd s =
     (case tick_symbols now rnd 0 TRACKED_SYMBOLS s of
        (s1, Some e) \<Rightarrow> (s1, Some e)
      | (s1, None) \<Rightarrow> (updateChart (chartSymbol s1) s1, None))"

subsection \<open>Socket close and error\<close>

definition on_close :: "instant \<Rightarrow> app_state \<Rightarrow> app_state" where
  "on_close now s = (if \<not> usingMockFeed s then startMockFeed now s else s)"

definition on_error :: "instant \<Rightarrow> app_state \<Rightarrow> app_state" where
  "on_error now s = (if \<not> usingMockFeed s then startMockFeed now s else s)"

text \<open>\<^verbatim>\<open>connectWebSocket\<close>: the handlers are registered, or the constructor throws and the
  \<^verbatim>\<open>catch\<close> branch starts the mock feed.\<close>

definition connectWebSocket :: "bool \<Rightarrow> instant \<Rightarrow> app_state \<Rightarrow> app_state" where
  "connectWebSocket constructor_throws now s =
     (if constructor_throws then startMockFeed now s else s)"

subsection \<open>Events of the page\<close>

datatype event =
    Open
  | Message message
  | Close instant
  | Error instant
  | Tick instant "nat \<Rightarrow> real"
  | Click string

text \<open>One event of the page. A timer event needs a timer, and a row can be clicked only
  when the table shows it, that is for a tracked symbol with a stored quote; an event
  that cannot happen leaves the state alone.\<close>

definition step :: "event \<Rightarrow> app_state \<Rightarrow> app_state \<times> js_error option" where
  "step ev s =
     (case ev of
        Open \<Rightarrow> (on_open s, None)
      | Message m \<Rightarrow> on_message m s
      | Close now \<Rightarrow> (on_close now s, None)
      | Error now \<Rightarrow> (on_error now s, None)
      | Tick now rnd \<Rightarrow> (if intervals s = 0 then (s, None) else mock_tick now rnd s)
      | Click smb \<Rightarrow>
          (if smb \<in> set TRACKED_SYMBOLS \<and> map_of (latestPrices s) smb \<noteq> None
           then (row_click smb s, None) else (s, None)))"

text \<open>A run of events; the uncaught errors are collected, the page goes on after each.\<close>

fun run :: "event list \<Rightarrow> app_state \<Rightarrow> app_state \<times> js_error list" where
  "run [] s = (s, [])"
| "run (ev # evs) s =
     (case step ev s of
        (s1, e) \<Rightarrow> (case run evs s1 of (s2, es) \<Rightarrow> (s2, (case e of None \<Rightarrow> es | Some x \<Rightarrow> x # es))))"

subsection \<open>Example inputs\<close>

definition example_quote :: "string \<Rightarrow> real \<Rightarrow> quote" where
  "example_quote smb p =
     \<lparr>symbol = smb, price = p, change = 0, percentChange = Finite 0,
      ts = ''2024-01-01T00:00:00.000Z''\<rparr>"

definition example_point :: "real \<Rightarrow> point" where
  "example_point p = \<lparr>point_ts = ''2024-01-01T00:00:00.000Z'', point_price = p\<rparr>"

subsection \<open>The alert decision in the words of the specification\<close>



text \<open>Close and error are the signals of a failed connection.\<close>

definition failure_signal :: "event \<Rightarrow> bool" where
  "failure_signal ev = (case ev of Close now \<Rightarrow> True | Error now \<Rightarrow> True | _ \<Rightarrow> False)"



text \<open>The socket opens, delivers one price update that lists AAPL only, and closes; then
  the timer of the mock feed fires once.\<close>

definition partial_feed :: "event list" where
  "partial_feed =
     [Open,
      Message (Json_value (Some ''price_update'') [example_quote ''AAPL'' 200]),
      Close ''2024-01-01T00:00:01.000Z'',
      Tick ''2024-01-01T00:00:03.500Z'' (\<lambda>i. 0.5)]"

text \<open>Two price updates while AAPL is selected.\<close>

definition two_updates :: "event list" where
  "two_updates =
     [Message (Json_value (Some ''price_update'')
        [example_quote ''AAPL'' 199, example_quote ''TSLA'' 150]),
      Message (Json_value (Some ''price_update'') [example_quote ''AAPL'' 200])]"

section \<open>Properties\<close>

subsection \<open>The history buffer\<close>

lemma push_point_length: "length h \<le> 20 \<Longrightarrow> length (push_point h p) \<le> 20"
  by (simp add: push_point_def Let_def)

lemma push_point_fifo:
  "length h \<le> 20 \<Longrightarrow> push_point h p = (if length h = 20 then tl h else h) @ [p]"
  by (cases h) (auto simp: push_point_def Let_def)

lemma push_point_drop: "length h \<le> 20 \<Longrightarrow> push_point h p = drop (Suc (length h) - 20) (h @ [p])"
proof (cases "length h = 20")
  case True
  then have ne: "h \<noteq> []" by auto
  from True have "Suc (length h) - 20 = Suc 0" by simp
  with True ne show ?thesis by (simp add: push_point_def Let_def drop_Suc)
next
  case False
  assume "length h \<le> 20"
  with False have "Suc (length h) - 20 = 0" by simp
  with False \<open>length h \<le> 20\<close> show ?thesis by (simp add: push_point_def Let_def)
qed

lemma foldl_push_point: "foldl push_point [] ps = drop (length ps - 20) ps"
proof (induction ps rule: rev_induct)
  case Nil
  show ?case by simp
next
  case (snoc p ps)
  have len: "length (drop (length ps - 20) ps) \<le> 20" by simp
  show ?case
  proof (cases "length ps < 20")
    case True
    with snoc push_point_drop [OF len, of p] show ?thesis by simp
  next
    case False
    then have eq: "Suc (length ps) - 20 = Suc (length ps - 20)" by simp
    from False have "length (drop (length ps - 20) ps) = 20" by simp
    with push_point_drop [OF len, of p]
    have "push_point (drop (length ps - 20) ps) p = drop (Suc 0) (drop (length ps - 20) ps @ [p])"
      by simp
    also have "\<dots> = drop (Suc (length ps - 20)) (ps @ [p])"
      using False by simp
    finally show ?thesis using snoc eq by simp
  qed
qed

lemma updateChart_length:
  "length (chartHistory s) \<le> 20 \<Longrightarrow> length (chartHistory (updateChart smb s)) \<le> 20"
  by (simp add: updateChart_def Let_def push_point_length split: option.splits)

lemma process_item_history [simp]: "chartHistory (process_item item s) = chartHistory s"
  by (simp add: process_item_def Let_def addRecentAlert_def split: option.splits)

lemma foldl_process_item_history [simp]:
  "chartHistory (foldl (\<lambda>st item. process_item item st) s d) = chartHistory s"
  by (induction d arbitrary: s) simp_all

lemma on_message_length:
  "length (chartHistory s) \<le> 20 \<Longrightarrow> length (chartHistory (fst (on_message m s))) \<le> 20"
  by (cases m) (simp_all add: on_message_def Let_def updateChart_length)

lemma startMockFeed_length:
  "length (chartHistory s) \<le> 20 \<Longrightarrow> length (chartHistory (startMockFeed now s)) \<le> 20"
  by (simp add: startMockFeed_def Let_def setWsStatus_def updateChart_length)

lemma mock_entry_history: "mock_entry now r smb s = Inr s' \<Longrightarrow> chartHistory s' = chartHistory s"
  by (auto simp: mock_entry_def Let_def addRecentAlert_def split: option.splits if_splits)

lemma tick_symbols_history:
  "tick_symbols now rnd i smbs s = (s', e) \<Longrightarrow> chartHistory s' = chartHistory s"
  by (induction now rnd i smbs s rule: tick_symbols.induct)
     (auto split: sum.splits dest: mock_entry_history)

lemma mock_tick_length:
  "length (chartHistory s) \<le> 20 \<Longrightarrow> length (chartHistory (fst (mock_tick now rnd s))) \<le> 20"
  by (auto simp: mock_tick_def updateChart_length split: prod.splits option.splits
           dest: tick_symbols_history)

lemma row_click_length: "length (chartHistory (row_click smb s)) \<le> 20"
  by (simp add: row_click_def Let_def updateChart_length)

lemma step_length:
  "length (chartHistory s) \<le> 20 \<Longrightarrow> length (chartHistory (fst (step ev s))) \<le> 20"
  by (cases ev)
     (simp_all add: step_def on_open_def setWsStatus_def on_close_def on_error_def
        on_message_length startMockFeed_length mock_tick_length row_click_length)

lemma run_length:
  "length (chartHistory s) \<le> 20 \<Longrightarrow> length (chartHistory (fst (run evs s))) \<le> 20"
proof (induction evs arbitrary: s)
  case Nil
  then show ?case by simp
next
  case (Cons ev evs)
  obtain s1 e where st: "step ev s = (s1, e)" by (cases "step ev s")
  obtain s2 es where rn: "run evs s1 = (s2, es)" by (cases "run evs s1")
  from step_length [OF Cons.prems, of ev] st have "length (chartHistory s1) \<le> 20" by simp
  from Cons.IH [OF this] rn st show ?case by simp
qed

text \<open>
  C4. The history buffer never holds more than 20 points: in every state the page reaches
  after \<^verbatim>\<open>connectWebSocket\<close> on the initial state, whatever the events, its length is at
  most 20. Recording a sequence of points into an empty buffer leaves the last 20 of them
  in the order of recording, newest last; recording at capacity drops exactly the oldest
  point. The point that \<^verbatim>\<open>updateChart\<close> records is the stored quote of the symbol.
\<close>

theorem chartHistory_bounded_fifo:
  "length (chartHistory (fst (run evs (connectWebSocket thrown now (initial_state c))))) \<le> 20
   \<and> foldl push_point [] ps = drop (length ps - 20) ps
   \<and> (length h \<le> 20 \<longrightarrow> push_point h p = (if length h = 20 then tl h else h) @ [p])
   \<and> (chart s = Some cv \<and> map_of (latestPrices s) smb = Some q \<longrightarrow>
        chartHistory (updateChart smb s) =
          push_point (chartHistory s) \<lparr>point_ts = ts q, point_price = price q\<rparr>)"
proof -
  have "length (chartHistory (initial_state c)) \<le> 20"
    by (simp add: initial_state_def)
  then have "length (chartHistory (connectWebSocket thrown now (initial_state c))) \<le> 20"
    by (simp add: connectWebSocket_def startMockFeed_length)
  then have "length (chartHistory (fst (run evs (connectWebSocket thrown now (initial_state c)))))
      \<le> 20"
    by (rule run_length)
  moreover have "chart s = Some cv \<and> map_of (latestPrices s) smb = Some q \<longrightarrow>
        chartHistory (updateChart smb s) =
          push_point (chartHistory s) \<lparr>point_ts = ts q, point_price = price q\<rparr>"
    by (simp add: updateChart_def Let_def)
  ultimately show ?thesis
    using foldl_push_point [of ps] push_point_fifo [of h p] by blast
qed

theorem chartHistory_bounded_fifo_witness:
  "length (replicate 20 (example_point 1)) \<le> 20
   \<and> push_point (replicate 20 (example_point 1)) (example_point 2)
       = replicate 19 (example_point 1) @ [example_point 2]
   \<and> foldl push_point [] (replicate 21 (example_point 1)) = replicate 20 (example_point 1)
   \<and> chart ((initial_state True)\<lparr>latestPrices := [(''AAPL'', example_quote ''AAPL'' 100)]\<rparr>)
       = Some \<lparr>labels = [], dataset = []\<rparr>
   \<and> map_of (latestPrices
         ((initial_state True)\<lparr>latestPrices := [(''AAPL'', example_quote ''AAPL'' 100)]\<rparr>)) ''AAPL''
       = Some (example_quote ''AAPL'' 100)
   \<and> chartHistory (updateChart ''AAPL''
         ((initial_state True)\<lparr>latestPrices := [(''AAPL'', example_quote ''AAPL'' 100)]\<rparr>))
       = [\<lparr>point_ts = ''2024-01-01T00:00:00.000Z'', point_price = 100\<rparr>]"
  using chartHistory_bounded_fifo [where ps = "replicate 21 (example_point 1)"
      and h = "replicate 20 (example_point 1)" and p = "example_point 2"
      and s = "(initial_state True)\<lparr>latestPrices := [(''AAPL'', example_quote ''AAPL'' 100)]\<rparr>"
      and cv = "\<lparr>labels = [], dataset = []\<rparr>" and smb = "''AAPL''"
      and q = "example_quote ''AAPL'' 100"]
  by (simp add: initial_state_def example_quote_def push_point_def)

subsection \<open>Recording without a quote\<close>

text \<open>
  C10. A call of \<^verbatim>\<open>updateChart\<close> for a symbol that has no stored quote returns the state
  it was given: history buffer and chart data are unchanged, and the call has no error
  outcome.
\<close>

theorem updateChart_no_quote_noop:
  "map_of (latestPrices s) smb = None \<Longrightarrow> updateChart smb s = s"
  by (simp add: updateChart_def split: option.splits)

theorem updateChart_no_quote_noop_witness:
  "map_of (latestPrices (initial_state True)) (chartSymbol (initial_state True)) = None
   \<and> updateChart (chartSymbol (initial_state True)) (initial_state True) = initial_state True"
  using updateChart_no_quote_noop [of "initial_state True" "chartSymbol (initial_state True)"]
  by (simp add: initial_state_def)

subsection \<open>Alerts\<close>





subsection \<open>Entries for symbols outside the tracked set\<close>






subsection \<open>Fallback to the mock feed\<close>

lemma startMockFeed_effect:
  "usingMockFeed (startMockFeed now s) \<and> intervals (startMockFeed now s) = Suc (intervals s)
   \<and> statusCalls (startMockFeed now s) = statusCalls s @ [(''error'', ''LIVE DATA: DEMO'')]"
  by (simp add: startMockFeed_def Let_def setWsStatus_def updateChart_def split: option.splits)

lemma step_signal_noop:
  "usingMockFeed s \<Longrightarrow> failure_signal ev \<Longrightarrow> step ev s = (s, None)"
  by (cases ev) (simp_all add: failure_signal_def step_def on_close_def on_error_def)

lemma run_signals_noop:
  "usingMockFeed s \<Longrightarrow> list_all failure_signal evs \<Longrightarrow> run evs s = (s, [])"
  by (induction evs) (simp_all add: step_signal_noop)

lemma step_signal_first:
  "\<not> usingMockFeed s \<Longrightarrow> failure_signal ev \<Longrightarrow> \<exists>now. step ev s = (startMockFeed now s, None)"
  by (cases ev) (auto simp: failure_signal_def step_def on_close_def on_error_def)

text \<open>
  C3. When the mock feed is not yet in use, a non-empty sequence of close and error signals
  starts the mock feed exactly once: the first signal runs \<^verbatim>\<open>startMockFeed\<close>, after the
  whole sequence one more timer exists, the status has been set to the demo status once,
  \<^verbatim>\<open>usingMockFeed\<close> holds, no handler has thrown, and each later signal leaves the state
  exactly as the first one left it.
\<close>

theorem fallback_exactly_once:
  assumes "\<not> usingMockFeed s" and "list_all failure_signal (ev # evs)"
  shows "\<exists>now s'. step ev s = (s', None) \<and> s' = startMockFeed now s
           \<and> run (ev # evs) s = (s', [])
           \<and> usingMockFeed s'
           \<and> intervals s' = Suc (intervals s)
           \<and> statusCalls s' = statusCalls s @ [(''error'', ''LIVE DATA: DEMO'')]
           \<and> (\<forall>ev' \<in> set evs. step ev' s' = (s', None))"
proof -
  from assms have fs: "failure_signal ev" and rest: "list_all failure_signal evs" by simp_all
  from step_signal_first [OF assms(1) fs] obtain now
    where st: "step ev s = (startMockFeed now s, None)" by blast
  let ?s' = "startMockFeed now s"
  have um: "usingMockFeed ?s'" using startMockFeed_effect [of now s] by simp
  have "run (ev # evs) s = (?s', [])"
    using st run_signals_noop [OF um rest] by simp
  moreover have "\<forall>ev' \<in> set evs. step ev' ?s' = (?s', None)"
    using rest um by (auto simp: list_all_iff step_signal_noop)
  ultimately show ?thesis
    using st startMockFeed_effect [of now s] by blast
qed

theorem fallback_exactly_once_witness:
  "\<not> usingMockFeed (initial_state True)
   \<and> list_all failure_signal [Close ''t1'', Error ''t2'', Close ''t3'']
   \<and> intervals (fst (run [Close ''t1'', Error ''t2'', Close ''t3''] (initial_state True))) = 1
   \<and> statusCalls (fst (run [Close ''t1'', Error ''t2'', Close ''t3''] (initial_state True)))
       = [(''error'', ''LIVE DATA: DEMO'')]"
proof -
  have h1: "\<not> usingMockFeed (initial_state True)" by (simp add: initial_state_def)
  have h2: "list_all failure_signal [Close ''t1'', Error ''t2'', Close ''t3'']"
    by (simp add: failure_signal_def)
  from fallback_exactly_once [OF h1 h2] h1 h2 show ?thesis
    by (auto simp: initial_state_def)
qed

subsection \<open>The synthetic tick\<close>





lemma updateChart_latestPrices [simp]: "latestPrices (updateChart smb s) = latestPrices s"
  by (simp add: updateChart_def Let_def split: option.splits)






subsection \<open>Derived fields of stored quotes\<close>






subsection \<open>Messages that are not price updates\<close>

lemma on_message_discards:
  "on_message Not_json s = (s, None)
   \<and> (t \<noteq> Some ''price_update'' \<longrightarrow> on_message (Json_value t d) s = (s, None))"
  by (simp add: on_message_def)

text \<open>
  C7, at the message whose text is \<^verbatim>\<open>null\<close>: \<^verbatim>\<open>JSON.parse\<close> returns \<^verbatim>\<open>null\<close>, and reading
  \<^verbatim>\<open>msg.type\<close> throws a TypeError that nothing catches. The state is unchanged, but the
  handler ends with an error.
\<close>

theorem null_message_throws:
  "on_message Json_null (initial_state True) = (initial_state True, Some TypeError)
   \<and> run [Message Json_null] (initial_state True) = (initial_state True, [TypeError])"
  by (simp add: on_message_def step_def)

subsection \<open>The tick on a store that lacks tracked symbols\<close>

text \<open>
  C9, at a store that holds AAPL only when the connection closes: \<^verbatim>\<open>startMockFeed\<close>
  seeds only an empty store, so the first tick reads \<^verbatim>\<open>prev.price\<close> of \<^verbatim>\<open>undefined\<close> for TSLA
  and throws a TypeError.
\<close>

theorem partial_feed_tick_throws:
  "snd (run partial_feed (initial_state True)) = [TypeError]
   \<and> map fst (latestPrices (fst (run partial_feed (initial_state True)))) = [''AAPL'']
   \<and> intervals (fst (run partial_feed (initial_state True))) = 1"
  by (simp add: partial_feed_def step_def on_open_def on_message_def on_close_def
        process_item_def startMockFeed_def setWsStatus_def updateChart_def push_point_def
        mock_tick_def mock_entry_def addRecentAlert_def TRACKED_SYMBOLS_def
        initial_state_def example_quote_def Let_def)

subsection \<open>Selecting a symbol\<close>

text \<open>
  C8, as claimed: selecting a symbol leaves the buffer of the previously selected symbol in
  place and starts the new one empty. There is one buffer: after two updates with AAPL
  selected it holds two AAPL points; after the click on the TSLA row the whole state holds
  one point, the stored TSLA quote, and no AAPL point.
\<close>

theorem selection_counterexample:
  "chartHistory (fst (run two_updates (initial_state True)))
     = [example_point 199, example_point 200]
   \<and> fst (run (two_updates @ [Click ''TSLA'']) (initial_state True))
     = \<lparr>latestPrices = [(''AAPL'', example_quote ''AAPL'' 200), (''TSLA'', example_quote ''TSLA'' 150)],
        chart = Some \<lparr>labels = [''2024-01-01T00:00:00.000Z''], dataset = [150]\<rparr>,
        chartSymbol = ''TSLA'',
        chartHistory = [example_point 150],
        usingMockFeed = False, statusCalls = [], alertCalls = [], intervals = 0\<rparr>"
  by (simp add: two_updates_def step_def on_message_def process_item_def updateChart_def
        push_point_def row_click_def addRecentAlert_def TRACKED_SYMBOLS_def
        initial_state_def example_quote_def example_point_def Let_def)

text \<open>
  C8, amended: the click on the row of a symbol with a stored quote makes it the selected
  symbol and empties the one shared buffer, and, when a chart exists, the same handler
  records the stored quote of the new symbol as the first point, so that afterwards the
  buffer and the chart hold exactly that point (nothing when there is no chart); the result
  does not depend on the points the buffer held before.
\<close>

theorem row_click_resets_history:
  assumes "map_of (latestPrices s) smb = Some q"
  shows "row_click smb s =
           s\<lparr>chartSymbol := smb,
             chartHistory := (case chart s of None \<Rightarrow> []
                              | Some c \<Rightarrow> [\<lparr>point_ts = ts q, point_price = price q\<rparr>]),
             chart := (case chart s of None \<Rightarrow> None
                       | Some c \<Rightarrow> Some (c\<lparr>labels := [ts q], dataset := [price q]\<rparr>))\<rparr>
         \<and> row_click smb (s\<lparr>chartHistory := h\<rparr>) = row_click smb s"
  using assms
  by (simp add: row_click_def updateChart_def push_point_def Let_def split: option.splits)

theorem row_click_resets_history_witness:
  "map_of (latestPrices (fst (run two_updates (initial_state True)))) ''TSLA''
     = Some (example_quote ''TSLA'' 150)
   \<and> chartHistory (row_click ''TSLA'' (fst (run two_updates (initial_state True))))
     = [example_point 150]"
proof -
  have h: "map_of (latestPrices (fst (run two_updates (initial_state True)))) ''TSLA''
     = Some (example_quote ''TSLA'' 150)"
    by (simp add: two_updates_def step_def on_message_def process_item_def updateChart_def
        push_point_def addRecentAlert_def initial_state_def example_quote_def Let_def)
  have c: "chart (fst (run two_updates (initial_state True))) \<noteq> None"
    by (simp add: two_updates_def step_def on_message_def process_item_def updateChart_def
        push_point_def addRecentAlert_def initial_state_def example_quote_def Let_def)
  from row_click_resets_history [OF h] c h show ?thesis
    by (auto simp: example_quote_def example_point_def)
qed

end
